theory Spec2Isabelle
  imports Complex_Main
begin

section \<open>The chat client of \<^verbatim>\<open>frontend/js/chat.js\<close>\<close>

text \<open>
  The browser runs \<^verbatim>\<open>chat.js\<close> on one thread: every handler runs to its next
  \<^verbatim>\<open>await\<close> without interruption, and an \<^verbatim>\<open>async\<close> function suspended at an
  \<^verbatim>\<open>await\<close> resumes when the promise it waits for settles. The model follows that
  shape. The page is a record \<open>world\<close> (the \<^verbatim>\<open>ChatState\<close> object, the parts of the
  DOM the handlers write, the requests issued, the console), each handler is a function
  on it, and the suspended \<^verbatim>\<open>streamChatResponse\<close> is the field \<open>task\<close> holding its
  local variables; its continuation is applied when the environment delivers the outcome
  of \<^verbatim>\<open>fetch\<close> or of \<^verbatim>\<open>reader.read()\<close>. A stream that never ends is a sequence of
  events that never delivers a final read: the task then stays suspended. Every
  \<^verbatim>\<open>new Date()\<close> is an argument of the function that reads the clock:
  \<^verbatim>\<open>handleSendMessage\<close> reads it twice, in \<^verbatim>\<open>addMessage\<close> for the user's message
  (\<open>now\<close>) and at the start of \<^verbatim>\<open>streamChatResponse\<close> (\<open>start\<close>); the \<^verbatim>\<open>catch\<close>
  block reads it once. The elements of the static page that the handlers look up are
  taken to exist.
\<close>

subsection \<open>JavaScript values, truthiness and the built-ins taken as parameters\<close>

text \<open>
  A string is a list of code units below 256. A parsed JSON document is a \<open>jsvalue\<close>;
  \<open>JUndefined\<close> is what reading an absent property gives. \<open>JNum\<close> holds the value of
  the parsed number.
\<close>

datatype jsvalue =
    JUndefined
  | JNull
  | JBool bool
  | JNum rat
  | JStr string
  | JArr "jsvalue list"
  | JObj "(string \<times> jsvalue) list"

fun truthy :: "jsvalue \<Rightarrow> bool" where
  "truthy JUndefined = False"
| "truthy JNull = False"
| "truthy (JBool b) = b"
| "truthy (JNum n) = (n \<noteq> 0)"
| "truthy (JStr s) = (s \<noteq> [])"
| "truthy (JArr xs) = True"
| "truthy (JObj kvs) = True"

datatype js_error =
    SyntaxError
  | TypeError
  | Rejected string
  | HttpError nat

text \<open>
  \<open>SyntaxError\<close> is what \<^verbatim>\<open>JSON.parse\<close> and \<^verbatim>\<open>response.json()\<close> fail with,
  \<open>TypeError\<close> is a property read on \<^verbatim>\<open>null\<close> or \<^verbatim>\<open>undefined\<close>, \<open>Rejected m\<close> is a
  rejection of \<^verbatim>\<open>fetch\<close> or \<^verbatim>\<open>reader.read()\<close> with message \<open>m\<close>, and \<open>HttpError n\<close> is
  the error \<^verbatim>\<open>streamChatResponse\<close> throws itself on a response that is not ok.

  The built-ins of the browser are parameters of the model: \<open>JSON_parse\<close> (\<open>None\<close>
  when it throws), \<open>ToString\<close> (the conversion \<^verbatim>\<open>+=\<close> applies to a value that is not
  a string; \<open>None\<close> when it throws, as on an object whose own \<^verbatim>\<open>toString\<close> is not a
  function) and \<open>engine_message\<close> (the message text of an error the engine raises).
\<close>

record platform =
  JSON_parse :: "string \<Rightarrow> jsvalue option"
  ToString :: "jsvalue \<Rightarrow> string option"
  engine_message :: "js_error \<Rightarrow> string"

text \<open>\<^verbatim>\<open>v.key\<close>: throws on \<^verbatim>\<open>null\<close> and \<^verbatim>\<open>undefined\<close>; only an object has own
  properties named \<^verbatim>\<open>done\<close>, \<^verbatim>\<open>content\<close>, \<^verbatim>\<open>status\<close> or \<^verbatim>\<open>bedrock_configured\<close>.\<close>

fun get_prop :: "jsvalue \<Rightarrow> string \<Rightarrow> js_error + jsvalue" where
  "get_prop JUndefined k = Inl TypeError"
| "get_prop JNull k = Inl TypeError"
| "get_prop (JObj kvs) k = (case map_of kvs k of None \<Rightarrow> Inr JUndefined | Some v \<Rightarrow> Inr v)"
| "get_prop v k = Inr JUndefined"

text \<open>\<^verbatim>\<open>a && b\<close> where \<open>b\<close> is only evaluated when \<open>a\<close> is truthy.\<close>

definition js_and :: "jsvalue \<Rightarrow> jsvalue \<Rightarrow> jsvalue" where
  "js_and a b = (if truthy a then b else a)"

text \<open>The text of a value in a string concatenation, or the error its conversion
  throws; and the value of \<^verbatim>\<open>s + v\<close> for a string \<open>s\<close>.\<close>

definition to_text :: "platform \<Rightarrow> jsvalue \<Rightarrow> js_error + string" where
  "to_text P v =
     (case v of
        JStr t \<Rightarrow> Inr t
      | _ \<Rightarrow> (case ToString P v of None \<Rightarrow> Inl TypeError | Some t \<Rightarrow> Inr t))"

definition js_append :: "platform \<Rightarrow> string \<Rightarrow> jsvalue \<Rightarrow> js_error + string" where
  "js_append P s v = (case to_text P v of Inl e \<Rightarrow> Inl e | Inr t \<Rightarrow> Inr (s @ t))"

text \<open>\<^verbatim>\<open>String.prototype.trim\<close> on code units below 256: tab, line feed, vertical tab,
  form feed, carriage return, space and no-break space are removed at both ends.\<close>

definition is_ws :: "char \<Rightarrow> bool" where
  "is_ws c = (c \<in> set [CHR 0x09, CHR 0x0A, CHR 0x0B, CHR 0x0C, CHR 0x0D, CHR 0x20, CHR 0xA0])"

definition js_trim :: "string \<Rightarrow> string" where
  "js_trim s = rev (dropWhile is_ws (rev (dropWhile is_ws s)))"

definition startsWith :: "string \<Rightarrow> string \<Rightarrow> bool" where
  "startsWith s p = (take (length p) s = p)"

text \<open>\<^verbatim>\<open>chunk.split('\n')\<close>: the pieces between line feeds; never an empty list.\<close>

fun split_lines :: "string \<Rightarrow> string list" where
  "split_lines [] = [[]]"
| "split_lines (c # cs) =
     (if c = CHR 0x0A then [] # split_lines cs
      else (case split_lines cs of
              [] \<Rightarrow> [[c]]
            | l # ls \<Rightarrow> (c # l) # ls))"

text \<open>The decimal digits of a status code, as a template literal prints it.\<close>

fun decimal :: "nat \<Rightarrow> string" where
  "decimal n =
     (if n < 10 then [char_of (48 + n)]
      else decimal (n div 10) @ [char_of (48 + n mod 10)])"

declare decimal.simps [simp del]

definition message_of :: "platform \<Rightarrow> js_error \<Rightarrow> string" where
  "message_of P e =
     (case e of
        Rejected m \<Rightarrow> m
      | HttpError n \<Rightarrow> ''HTTP error! status: '' @ decimal n
      | _ \<Rightarrow> engine_message P e)"

subsection \<open>\<^verbatim>\<open>class ChatState\<close>\<close>

datatype msg_role = User | Assistant

text \<open>A timestamp is the instant in milliseconds that \<^verbatim>\<open>toISOString\<close> prints.\<close>

record message =
  role :: msg_role
  content :: string
  timestamp :: nat

text \<open>\<^verbatim>\<open>currentStreamingMessage\<close> and \<^verbatim>\<open>eventSource\<close> are set to \<^verbatim>\<open>null\<close> by the
  constructor and never read or written again; they are left out. \<open>isHealthy\<close> holds
  whatever value \<^verbatim>\<open>checkHealth\<close> stores, and is read through its truthiness.\<close>

record ChatState =
  conversationHistory :: "message list"
  isStreaming :: bool
  isHealthy :: jsvalue

definition new_ChatState :: ChatState where
  "new_ChatState = \<lparr>conversationHistory = [], isStreaming = False, isHealthy = JBool False\<rparr>"

definition addMessage :: "msg_role \<Rightarrow> string \<Rightarrow> nat \<Rightarrow> ChatState \<Rightarrow> message \<times> ChatState" where
  "addMessage r c t s =
     (let m = \<lparr>role = r, content = c, timestamp = t\<rparr>
      in (m, s\<lparr>conversationHistory := conversationHistory s @ [m]\<rparr>))"

definition clearHistory :: "ChatState \<Rightarrow> ChatState" where
  "clearHistory s = s\<lparr>conversationHistory := []\<rparr>"

definition getHistory :: "ChatState \<Rightarrow> message list" where
  "getHistory s = conversationHistory s"

subsection \<open>The page\<close>

text \<open>
  A message element of the page: its role class, whether it is the welcome message of
  the static page, the text it shows (rendered through \<^verbatim>\<open>formatMessageContent\<close>) and
  its time. \<open>dom_elems\<close> is the store of all elements ever created, an element's
  identity being its index, and \<open>messagesContainer\<close> lists the children of
  \<^verbatim>\<open>#messages\<close> in order; an element removed from the container stays in the store,
  as a detached node does.
\<close>

record element =
  el_role :: msg_role
  el_welcome :: bool
  el_text :: string
  el_time :: nat

text \<open>A call of \<^verbatim>\<open>fetch\<close>: the health request, or the streaming request with the
  \<^verbatim>\<open>message\<close> and \<^verbatim>\<open>conversation_history\<close> of its body (\<^verbatim>\<open>use_knowledge_base\<close> is
  always true).\<close>

datatype request =
    HealthGet
  | ChatStreamPost string "message list"

datatype await_point = AwaitingFetch | AwaitingRead

text \<open>The local variables of a suspended \<^verbatim>\<open>streamChatResponse\<close>.\<close>

record stream_locals =
  streamedContent :: string
  startTime :: nat
  messageElement :: "nat option"
  awaiting :: await_point

record world =
  state :: ChatState
  messageInput :: string
  dom_elems :: "element list"
  messagesContainer :: "nat list"
  typingIndicator :: bool
  statusOnline :: bool
  notices :: "string list"
  console_errors :: "(string \<times> js_error) list"
  requests :: "request list"
  task :: "stream_locals option"

text \<open>\<open>notices\<close> lists the texts \<^verbatim>\<open>showError\<close> has put in the toast (each is hidden
  again by a timer five seconds later), \<open>console_errors\<close> the calls of
  \<^verbatim>\<open>console.error\<close>, \<open>requests\<close> the calls of \<^verbatim>\<open>fetch\<close>. Scrolling, focus and the
  textarea's height are not modelled.\<close>

definition page_loaded :: world where
  "page_loaded =
     \<lparr>state = new_ChatState, messageInput = [],
      dom_elems = [\<lparr>el_role = Assistant, el_welcome = True, el_text = [], el_time = 0\<rparr>],
      messagesContainer = [0], typingIndicator = False, statusOnline = False,
      notices = [], console_errors = [], requests = [], task = None\<rparr>"

definition showError :: "string \<Rightarrow> world \<Rightarrow> world" where
  "showError m w = w\<lparr>notices := notices w @ [m]\<rparr>"

definition console_error :: "string \<Rightarrow> js_error \<Rightarrow> world \<Rightarrow> world" where
  "console_error label e w = w\<lparr>console_errors := console_errors w @ [(label, e)]\<rparr>"

definition updateStatus :: "jsvalue \<Rightarrow> world \<Rightarrow> world" where
  "updateStatus isOnline w = (if truthy isOnline then w\<lparr>statusOnline := True\<rparr> else w\<lparr>statusOnline := False\<rparr>)"

definition showTypingIndicator :: "world \<Rightarrow> world" where
  "showTypingIndicator w = w\<lparr>typingIndicator := True\<rparr>"

definition hideTypingIndicator :: "world \<Rightarrow> world" where
  "hideTypingIndicator w = w\<lparr>typingIndicator := False\<rparr>"

definition createMessageElement :: "msg_role \<Rightarrow> string \<Rightarrow> nat \<Rightarrow> element" where
  "createMessageElement r c t = \<lparr>el_role = r, el_welcome = False, el_text = c, el_time = t\<rparr>"

definition appendChild :: "element \<Rightarrow> world \<Rightarrow> nat \<times> world" where
  "appendChild e w =
     (length (dom_elems w),
      w\<lparr>dom_elems := dom_elems w @ [e],
        messagesContainer := messagesContainer w @ [length (dom_elems w)]\<rparr>)"

definition displayUserMessage :: "message \<Rightarrow> world \<Rightarrow> world" where
  "displayUserMessage m w = snd (appendChild (createMessageElement User (content m) (timestamp m)) w)"

definition displayAssistantMessage :: "string \<Rightarrow> nat \<Rightarrow> world \<Rightarrow> nat \<times> world" where
  "displayAssistantMessage c t w = appendChild (createMessageElement Assistant c t) w"

text \<open>\<^verbatim>\<open>textElement.innerHTML = formatMessageContent(streamedContent)\<close> on the element
  with identity \<open>i\<close>.\<close>

definition set_text :: "nat \<Rightarrow> string \<Rightarrow> world \<Rightarrow> world" where
  "set_text i c w = w\<lparr>dom_elems := (dom_elems w)[i := (dom_elems w ! i)\<lparr>el_text := c\<rparr>]\<rparr>"

subsection \<open>\<^verbatim>\<open>checkHealth\<close>\<close>

text \<open>What the health request comes back with: a rejected \<^verbatim>\<open>fetch\<close>, or a response
  with its body text, which \<^verbatim>\<open>response.json()\<close> parses.\<close>

datatype health_reply =
    HealthRejected string
  | HealthBody string

definition checkHealth_try :: "platform \<Rightarrow> health_reply \<Rightarrow> world \<Rightarrow> js_error + world" where
  "checkHealth_try P reply w =
     (case reply of
        HealthRejected m \<Rightarrow> Inl (Rejected m)
      | HealthBody body \<Rightarrow>
          (case JSON_parse P body of
             None \<Rightarrow> Inl SyntaxError
           | Some data \<Rightarrow>
               (case get_prop data ''bedrock_configured'' of
                  Inl e \<Rightarrow> Inl e
                | Inr bc \<Rightarrow>
                    (case get_prop data ''status'' of
                       Inl e \<Rightarrow> Inl e
                     | Inr st \<Rightarrow>
                         (let isHealthy' = js_and bc (JBool (st = JStr ''healthy''));
                              w1 = updateStatus isHealthy' w
                          in Inr (w1\<lparr>state := (state w1)\<lparr>isHealthy := isHealthy'\<rparr>\<rparr>))))))"

text \<open>The whole call: the request, the body of the \<^verbatim>\<open>try\<close>, and the \<^verbatim>\<open>catch\<close>.
  \<open>Inl\<close> would be an exception leaving the function.\<close>

definition checkHealth :: "platform \<Rightarrow> health_reply \<Rightarrow> world \<Rightarrow> js_error + world" where
  "checkHealth P reply w =
     (let w0 = w\<lparr>requests := requests w @ [HealthGet]\<rparr>
      in case checkHealth_try P reply w0 of
           Inr w' \<Rightarrow> Inr w'
         | Inl e \<Rightarrow>
             (let w1 = console_error ''Health check failed:'' e w0;
                  w2 = updateStatus (JBool False) w1
              in Inr (w2\<lparr>state := (state w2)\<lparr>isHealthy := JBool False\<rparr>\<rparr>)))"

subsection \<open>\<^verbatim>\<open>streamChatResponse\<close>\<close>

datatype fetch_outcome =
    FetchRejected string
  | FetchResponse bool nat bool

text \<open>\<open>FetchResponse ok status has_body\<close>: \<^verbatim>\<open>response.ok\<close>, \<^verbatim>\<open>response.status\<close>, and
  whether \<^verbatim>\<open>response.body\<close> is a stream rather than \<^verbatim>\<open>null\<close>.\<close>

datatype read_result =
    ReadDone
  | ReadChunk string
  | ReadFailed string

text \<open>\<open>ReadChunk c\<close> is a read whose bytes decode to the text \<open>c\<close>.\<close>

datatype try_result =
    Suspend stream_locals world
  | Return world
  | Throw js_error world

text \<open>The call up to \<^verbatim>\<open>await fetch(...)\<close>.\<close>

definition streamChatResponse :: "string \<Rightarrow> nat \<Rightarrow> world \<Rightarrow> world" where
  "streamChatResponse msg now w =
     (let w1 = w\<lparr>state := (state w)\<lparr>isStreaming := True\<rparr>\<rparr>;
          l = \<lparr>streamedContent = [], startTime = now, messageElement = None,
               awaiting = AwaitingFetch\<rparr>;
          w2 = w1\<lparr>requests := requests w1 @ [ChatStreamPost msg (getHistory (state w1))]\<rparr>
      in w2\<lparr>task := Some l\<rparr>)"

text \<open>From the settled \<^verbatim>\<open>fetch\<close> to the first \<^verbatim>\<open>await reader.read()\<close>.\<close>

definition after_fetch :: "fetch_outcome \<Rightarrow> stream_locals \<Rightarrow> world \<Rightarrow> try_result" where
  "after_fetch out l w =
     (case out of
        FetchRejected m \<Rightarrow> Throw (Rejected m) w
      | FetchResponse ok status has_body \<Rightarrow>
          if \<not> ok then Throw (HttpError status) w
          else if \<not> has_body then Throw TypeError w
          else Suspend (l\<lparr>awaiting := AwaitingRead\<rparr>) (hideTypingIndicator w))"

text \<open>The body of the inner \<^verbatim>\<open>try\<close> for one payload.\<close>

definition frame_try ::
  "platform \<Rightarrow> string \<Rightarrow> stream_locals \<times> world \<Rightarrow> js_error + stream_locals \<times> world" where
  "frame_try P data lw =
     (case JSON_parse P data of
        None \<Rightarrow> Inl SyntaxError
      | Some parsed \<Rightarrow>
          (case get_prop parsed ''done'' of
             Inl e \<Rightarrow> Inl e
           | Inr d \<Rightarrow>
               if truthy d then Inr lw
               else
                 (case get_prop parsed ''content'' of
                    Inl e \<Rightarrow> Inl e
                  | Inr c \<Rightarrow>
                      if truthy c then
                        (let l = fst lw; w = snd lw
                         in case js_append P (streamedContent l) c of
                              Inl e \<Rightarrow> Inl e
                            | Inr sc \<Rightarrow>
                                (case messageElement l of
                                   None \<Rightarrow>
                                     (let (i, w') = displayAssistantMessage sc (startTime l) w
                                      in Inr (l\<lparr>streamedContent := sc, messageElement := Some i\<rparr>, w'))
                                 | Some i \<Rightarrow>
                                     Inr (l\<lparr>streamedContent := sc\<rparr>, set_text i sc w)))
                      else Inr lw)))"

text \<open>One iteration of \<^verbatim>\<open>for (const line of lines)\<close>.\<close>

definition process_line ::
  "platform \<Rightarrow> string \<Rightarrow> stream_locals \<times> world \<Rightarrow> stream_locals \<times> world" where
  "process_line P line lw =
     (if startsWith line ''data: '' then
        (let data = drop 6 line
         in if js_trim data = [] then lw
            else (case frame_try P data lw of
                    Inr lw' \<Rightarrow> lw'
                  | Inl e \<Rightarrow> (fst lw, console_error ''Error parsing SSE data:'' e (snd lw))))
      else lw)"

text \<open>One iteration of \<^verbatim>\<open>while (true)\<close>, from the settled read to the next
  \<^verbatim>\<open>await reader.read()\<close> or out of the loop.\<close>

definition after_read :: "platform \<Rightarrow> read_result \<Rightarrow> stream_locals \<Rightarrow> world \<Rightarrow> try_result" where
  "after_read P r l w =
     (case r of
        ReadFailed m \<Rightarrow> Throw (Rejected m) w
      | ReadDone \<Rightarrow>
          Return (w\<lparr>state := snd (addMessage Assistant (streamedContent l) (startTime l) (state w))\<rparr>)
      | ReadChunk chunk \<Rightarrow>
          (let (l', w') = fold (process_line P) (split_lines chunk) (l, w)
           in Suspend l' w'))"

definition streamChatResponse_catch :: "platform \<Rightarrow> js_error \<Rightarrow> nat \<Rightarrow> world \<Rightarrow> world" where
  "streamChatResponse_catch P e now w =
     (let w1 = console_error ''Error streaming response:'' e w;
          w2 = hideTypingIndicator w1;
          w3 = showError (''Failed to get response: '' @ message_of P e) w2
      in snd (displayAssistantMessage ''Sorry, I encountered an error. Please try again.'' now w3))"

definition streamChatResponse_finally :: "world \<Rightarrow> world" where
  "streamChatResponse_finally w = w\<lparr>state := (state w)\<lparr>isStreaming := False\<rparr>, task := None\<rparr>"

text \<open>\<^verbatim>\<open>try { ... } catch (error) { ... } finally { ... }\<close> around a segment.\<close>

definition settle :: "platform \<Rightarrow> nat \<Rightarrow> try_result \<Rightarrow> world" where
  "settle P now r =
     (case r of
        Suspend l w \<Rightarrow> w\<lparr>task := Some l\<rparr>
      | Return w \<Rightarrow> streamChatResponse_finally w
      | Throw e w \<Rightarrow> streamChatResponse_finally (streamChatResponse_catch P e now w))"

datatype settled =
    FetchSettled fetch_outcome
  | ReadSettled read_result

text \<open>The suspended call resumes with the outcome of the promise it awaits; an outcome
  nothing awaits changes nothing.\<close>

definition streamChatResponse_resume :: "platform \<Rightarrow> settled \<Rightarrow> nat \<Rightarrow> world \<Rightarrow> world" where
  "streamChatResponse_resume P ev now w =
     (case task w of
        None \<Rightarrow> w
      | Some l \<Rightarrow>
          (case (awaiting l, ev) of
             (AwaitingFetch, FetchSettled out) \<Rightarrow> settle P now (after_fetch out l w)
           | (AwaitingRead, ReadSettled r) \<Rightarrow> settle P now (after_read P r l w)
           | _ \<Rightarrow> w))"

subsection \<open>\<^verbatim>\<open>handleSendMessage\<close> and \<^verbatim>\<open>handleClearChat\<close>\<close>

definition handleSendMessage :: "nat \<Rightarrow> nat \<Rightarrow> world \<Rightarrow> world" where
  "handleSendMessage now start w =
     (let msg = js_trim (messageInput w)
      in if msg = [] then w
         else if isStreaming (state w) then
           showError ''Please wait for the current response to complete'' w
         else if \<not> truthy (isHealthy (state w)) then
           showError ''Backend is offline. Please check your connection.'' w
         else
           (let w1 = w\<lparr>messageInput := []\<rparr>;
                (userMessage, s') = addMessage User msg now (state w1);
                w2 = displayUserMessage userMessage (w1\<lparr>state := s'\<rparr>);
                w3 = showTypingIndicator w2
            in streamChatResponse msg start w3))"

text \<open>The operation \<^verbatim>\<open>sendMessage(text)\<close> of the specification: \<open>text\<close> is what the
  textarea holds when the send button is clicked.\<close>

definition sendMessage :: "string \<Rightarrow> nat \<Rightarrow> nat \<Rightarrow> world \<Rightarrow> world" where
  "sendMessage text now start w = handleSendMessage now start (w\<lparr>messageInput := text\<rparr>)"

text \<open>\<open>confirmed\<close> is the answer of the \<^verbatim>\<open>confirm\<close> dialog.\<close>

definition handleClearChat :: "bool \<Rightarrow> world \<Rightarrow> world" where
  "handleClearChat confirmed w =
     (if confirmed then
        w\<lparr>state := clearHistory (state w),
          messagesContainer := filter (\<lambda>i. el_welcome (dom_elems w ! i)) (messagesContainer w)\<rparr>
      else w)"

subsection \<open>Runs of the page\<close>

datatype event =
    Typed string
  | Send nat
  | Clear bool
  | HealthChecked health_reply
  | Settled settled

text \<open>One event at the instant it is handled, and a sequence of timed events;
  \<open>Send start\<close> carries the second clock read of \<^verbatim>\<open>handleSendMessage\<close>.\<close>

definition step :: "platform \<Rightarrow> nat \<times> event \<Rightarrow> world \<Rightarrow> world" where
  "step P te w =
     (case snd te of
        Typed s \<Rightarrow> w\<lparr>messageInput := s\<rparr>
      | Send start \<Rightarrow> handleSendMessage (fst te) start w
      | Clear c \<Rightarrow> handleClearChat c w
      | HealthChecked reply \<Rightarrow> (case checkHealth P reply w of Inr w' \<Rightarrow> w' | Inl e \<Rightarrow> w)
      | Settled ev \<Rightarrow> streamChatResponse_resume P ev (fst te) w)"

definition run :: "platform \<Rightarrow> (nat \<times> event) list \<Rightarrow> world \<Rightarrow> world" where
  "run P evs w = fold (step P) evs w"

subsection \<open>Classifying lines and outcomes\<close>

text \<open>
  \<open>frame_fails\<close>: the inner \<^verbatim>\<open>try\<close> throws on this payload (\<^verbatim>\<open>JSON.parse\<close> throws,
  the parsed value is \<^verbatim>\<open>null\<close> and reading \<^verbatim>\<open>parsed.done\<close> throws, or the content
  to append has no text). A line is \<open>malformed\<close> when it is a frame line with a
  payload that is not blank and fails; it \<open>delivers_content\<close> when its payload parses,
  is not marked done and has truthy content with a text, and \<open>fragment\<close> is then the
  text it adds. \<open>stream_ends\<close> says whether an
  outcome, arriving at an await point, leaves the \<^verbatim>\<open>try\<close> block: a rejected or unusable
  response, a failed read, the end of the body; \<open>stream_fails\<close> gives the error thrown
  when it leaves it by an exception. An event is \<open>quiet\<close> when it is no such outcome
  at either await point. \<open>no_console\<close> forgets the console, and \<open>view\<close> is a loop state
  up to the console.
\<close>

definition frame_fails :: "platform \<Rightarrow> string \<Rightarrow> bool" where
  "frame_fails P data =
     (case JSON_parse P data of
        None \<Rightarrow> True
      | Some parsed \<Rightarrow>
          (case get_prop parsed ''done'' of
             Inl e \<Rightarrow> True
           | Inr d \<Rightarrow>
               \<not> truthy d \<and>
               (case get_prop parsed ''content'' of
                  Inl e \<Rightarrow> True
                | Inr c \<Rightarrow> truthy c \<and> isl (to_text P c))))"

definition malformed :: "platform \<Rightarrow> string \<Rightarrow> bool" where
  "malformed P line =
     (startsWith line ''data: '' \<and> js_trim (drop 6 line) \<noteq> [] \<and> frame_fails P (drop 6 line))"

definition delivers_content :: "platform \<Rightarrow> string \<Rightarrow> bool" where
  "delivers_content P line =
     (startsWith line ''data: '' \<and> js_trim (drop 6 line) \<noteq> [] \<and>
      (case JSON_parse P (drop 6 line) of
         None \<Rightarrow> False
       | Some parsed \<Rightarrow>
           (case get_prop parsed ''done'' of
              Inl e \<Rightarrow> False
            | Inr d \<Rightarrow>
                \<not> truthy d \<and>
                (case get_prop parsed ''content'' of
                   Inl e \<Rightarrow> False
                 | Inr c \<Rightarrow> truthy c \<and> \<not> isl (to_text P c)))))"

fun stream_ends :: "await_point \<Rightarrow> settled \<Rightarrow> bool" where
  "stream_ends AwaitingFetch (FetchSettled (FetchRejected m)) = True"
| "stream_ends AwaitingFetch (FetchSettled (FetchResponse ok n has_body)) = (\<not> (ok \<and> has_body))"
| "stream_ends AwaitingRead (ReadSettled ReadDone) = True"
| "stream_ends AwaitingRead (ReadSettled (ReadFailed m)) = True"
| "stream_ends AwaitingRead (ReadSettled (ReadChunk c)) = False"
| "stream_ends a ev = False"




definition no_console :: "world \<Rightarrow> world" where
  "no_console w = w\<lparr>console_errors := []\<rparr>"

definition view :: "stream_locals \<times> world \<Rightarrow> stream_locals \<times> world" where
  "view lw = (fst lw, no_console (snd lw))"

fun stream_fails :: "await_point \<Rightarrow> settled \<Rightarrow> js_error option" where
  "stream_fails AwaitingFetch (FetchSettled (FetchRejected m)) = Some (Rejected m)"
| "stream_fails AwaitingFetch (FetchSettled (FetchResponse ok n has_body)) =
     (if \<not> ok then Some (HttpError n) else if \<not> has_body then Some TypeError else None)"
| "stream_fails AwaitingRead (ReadSettled (ReadFailed m)) = Some (Rejected m)"
| "stream_fails a ev = None"

definition quiet :: "event \<Rightarrow> bool" where
  "quiet e =
     (case e of
        Settled s \<Rightarrow> \<not> (stream_ends AwaitingFetch s \<or> stream_ends AwaitingRead s)
      | _ \<Rightarrow> True)"

definition fragment :: "platform \<Rightarrow> string \<Rightarrow> string" where
  "fragment P line =
     (if delivers_content P line then
        (case JSON_parse P (drop 6 line) of
           None \<Rightarrow> []
         | Some parsed \<Rightarrow>
             (case get_prop parsed ''content'' of
                Inl e \<Rightarrow> []
              | Inr c \<Rightarrow> (case to_text P c of Inl e \<Rightarrow> [] | Inr t \<Rightarrow> t)))
      else [])"

subsection \<open>A sample platform and sample worlds for concrete runs\<close>

text \<open>
  A table of the payloads the concrete runs below use, each with the value
  \<^verbatim>\<open>JSON.parse\<close> gives it; any other text is rejected, as \<^verbatim>\<open>JSON.parse\<close> rejects the
  malformed payloads used (\<^verbatim>\<open>{"content":\<close>, \<^verbatim>\<open>{"cont\<close>, \<^verbatim>\<open><html>\<close>). No content in the
  table is other than a string, so the runs never apply \<open>ToString\<close>.
\<close>

definition sample_parse :: "string \<Rightarrow> jsvalue option" where
  "sample_parse =
     map_of
       [(''{\"content\":\"Hi\"}'', JObj [(''content'', JStr ''Hi'')]),
        (''{\"content\":\" there\"}'', JObj [(''content'', JStr '' there'')]),
        (''{\"content\":\"Par\"}'', JObj [(''content'', JStr ''Par'')]),
        (''{\"done\":true}'', JObj [(''done'', JBool True)]),
        (''null'', JNull),
        (''{}'', JObj []),
        (''{\"status\":\"healthy\",\"bedrock_configured\":true}'',
           JObj [(''status'', JStr ''healthy''), (''bedrock_configured'', JBool True)]),
        (''{\"status\":\"healthy\",\"bedrock_configured\":false}'',
           JObj [(''status'', JStr ''healthy''), (''bedrock_configured'', JBool False)]),
        (''{\"status\":\"degraded\",\"bedrock_configured\":true}'',
           JObj [(''status'', JStr ''degraded''), (''bedrock_configured'', JBool True)]),
        (''{\"status\":\"healthy\",\"bedrock_configured\":1}'',
           JObj [(''status'', JStr ''healthy''), (''bedrock_configured'', JNum 1)])]"

definition sample_platform :: platform where
  "sample_platform =
     \<lparr>JSON_parse = sample_parse,
      ToString = (\<lambda>v. Some ''[object Object]''),
      engine_message = (\<lambda>e. ''engine error'')\<rparr>"

text \<open>The page after a health check has found the backend healthy.\<close>

definition page_online :: world where
  "page_online =
     page_loaded\<lparr>state := new_ChatState\<lparr>isHealthy := JBool True\<rparr>, statusOnline := True\<rparr>"

text \<open>An event frame as the server writes it: the prefix, the payload, a blank line.\<close>

definition sse :: "string \<Rightarrow> string" where
  "sse payload = ''data: '' @ payload @ [CHR 0x0A, CHR 0x0A]"

definition chunk_read :: "nat \<Rightarrow> string \<Rightarrow> nat \<times> event" where
  "chunk_read t c = (t, Settled (ReadSettled (ReadChunk c)))"

definition response_ok :: "nat \<Rightarrow> nat \<times> event" where
  "response_ok t = (t, Settled (FetchSettled (FetchResponse True 200 True)))"

definition end_of_stream :: "nat \<Rightarrow> nat \<times> event" where
  "end_of_stream t = (t, Settled (ReadSettled ReadDone))"

text \<open>The page while a response streams, one fragment in, and the locals of the
  suspended call there.\<close>

definition page_streaming :: world where
  "page_streaming =
     run sample_platform [response_ok 2, chunk_read 3 (sse ''{\"content\":\"Hi\"}'')]
       (sendMessage ''hello'' 1 2 page_online)"

definition locals_streaming :: stream_locals where
  "locals_streaming =
     \<lparr>streamedContent = ''Hi'', startTime = 2, messageElement = Some 2, awaiting = AwaitingRead\<rparr>"

text \<open>A list of timed chunks as read events, and all their lines in order.\<close>

definition chunk_reads :: "(nat \<times> string) list \<Rightarrow> (nat \<times> event) list" where
  "chunk_reads cs = map (\<lambda>tc. chunk_read (fst tc) (snd tc)) cs"

definition lines_of :: "(nat \<times> string) list \<Rightarrow> string list" where
  "lines_of cs = concat (map (\<lambda>tc. split_lines (snd tc)) cs)"

section \<open>Properties\<close>

subsection \<open>Lines of a chunk\<close>

lemma get_prop_Inl: "get_prop v k = Inl e \<longleftrightarrow> (v = JUndefined \<or> v = JNull) \<and> e = TypeError"
  by (cases v) (auto split: option.splits)

lemma to_text_Inl: "to_text P v = Inl e \<Longrightarrow> e = TypeError"
  by (cases v) (auto simp: to_text_def split: option.splits)

lemma frame_try_fails:
  "frame_fails P data \<Longrightarrow>
   frame_try P data lw = Inl (case JSON_parse P data of None \<Rightarrow> SyntaxError | Some v \<Rightarrow> TypeError)"
  by (auto simp: frame_fails_def frame_try_def js_append_def Let_def isl_def get_prop_Inl
           dest: to_text_Inl split: option.splits sum.splits)

lemma frame_try_ok: "\<not> frame_fails P data \<Longrightarrow> \<exists>lw'. frame_try P data lw = Inr lw'"
  by (auto simp: frame_fails_def frame_try_def js_append_def Let_def get_prop_Inl
           split: option.splits sum.splits prod.splits)

lemma process_line_malformed:
  "malformed P line \<Longrightarrow>
   \<exists>e. process_line P line (l, w) = (l, console_error ''Error parsing SSE data:'' e w)"
  by (auto simp: malformed_def process_line_def Let_def frame_try_fails)

lemmas dom_defs = displayAssistantMessage_def appendChild_def createMessageElement_def
  set_text_def console_error_def no_console_def

lemma frame_try_view:
  "frame_try P data lw = Inr lw' \<Longrightarrow> \<exists>lw''. frame_try P data (view lw) = Inr lw'' \<and> view lw'' = view lw'"
  by (auto simp: frame_try_def js_append_def view_def Let_def dom_defs
           split: option.splits sum.splits if_splits prod.splits)

lemma frame_try_console:
  "frame_try P data lw = Inr lw' \<Longrightarrow> console_errors (snd lw') = console_errors (snd lw)"
  by (auto simp: frame_try_def js_append_def Let_def dom_defs
           split: option.splits sum.splits if_splits prod.splits)

lemma frame_try_state:
  "frame_try P data lw = Inr lw' \<Longrightarrow>
   state (snd lw') = state (snd lw) \<and> requests (snd lw') = requests (snd lw) \<and>
   notices (snd lw') = notices (snd lw) \<and> awaiting (fst lw') = awaiting (fst lw) \<and>
   startTime (fst lw') = startTime (fst lw)"
  by (auto simp: frame_try_def js_append_def Let_def dom_defs
           split: option.splits sum.splits if_splits prod.splits)

lemma process_line_view: "view (process_line P line (view lw)) = view (process_line P line lw)"
proof (cases "startsWith line ''data: '' \<and> js_trim (drop 6 line) \<noteq> []")
  case False
  then show ?thesis by (auto simp: process_line_def view_def Let_def no_console_def)
next
  case True
  show ?thesis
  proof (cases "frame_fails P (drop 6 line)")
    case True
    with \<open>startsWith line ''data: '' \<and> js_trim (drop 6 line) \<noteq> []\<close> show ?thesis
      by (simp add: process_line_def Let_def frame_try_fails view_def dom_defs)
  next
    case False
    then obtain lw' where a: "frame_try P (drop 6 line) lw = Inr lw'"
      using frame_try_ok by blast
    then obtain lw'' where b: "frame_try P (drop 6 line) (view lw) = Inr lw''" "view lw'' = view lw'"
      using frame_try_view by blast
    with a \<open>startsWith line ''data: '' \<and> js_trim (drop 6 line) \<noteq> []\<close> show ?thesis
      by (simp add: process_line_def Let_def)
  qed
qed

lemma process_line_malformed_view: "malformed P line \<Longrightarrow> view (process_line P line lw) = view lw"
  using process_line_malformed [of P line "fst lw" "snd lw"]
  by (auto simp: view_def dom_defs)

lemma process_line_console:
  "length (console_errors (snd (process_line P line lw))) =
   length (console_errors (snd lw)) + (if malformed P line then 1 else 0)"
proof (cases "malformed P line")
  case True
  then show ?thesis
    using process_line_malformed [of P line "fst lw" "snd lw"] by (auto simp: dom_defs)
next
  case False
  show ?thesis
  proof (cases "startsWith line ''data: '' \<and> js_trim (drop 6 line) \<noteq> []")
    case True
    with False have "\<not> frame_fails P (drop 6 line)" by (simp add: malformed_def)
    then obtain lw' where a: "frame_try P (drop 6 line) lw = Inr lw'"
      using frame_try_ok by blast
    with True False show ?thesis
      using frame_try_console [OF a] by (simp add: process_line_def Let_def)
  next
    case False
    then show ?thesis by (auto simp: process_line_def malformed_def Let_def)
  qed
qed

lemma process_line_view_cong:
  "view a = view b \<Longrightarrow> view (process_line P line a) = view (process_line P line b)"
  by (metis process_line_view)

lemma fold_view_cong:
  "view a = view b \<Longrightarrow> view (fold (process_line P) ls a) = view (fold (process_line P) ls b)"
proof (induction ls arbitrary: a b)
  case Nil
  then show ?case by simp
next
  case (Cons x xs)
  show ?case using Cons.IH [OF process_line_view_cong [OF Cons.prems]] by simp
qed

lemma fold_skip_malformed_view:
  "view (fold (process_line P) ls lw) =
   view (fold (process_line P) (filter (\<lambda>x. \<not> malformed P x) ls) lw)"
proof (induction ls arbitrary: lw)
  case Nil
  show ?case by simp
next
  case (Cons x xs)
  show ?case
  proof (cases "malformed P x")
    case True
    have "view (fold (process_line P) xs (process_line P x lw)) = view (fold (process_line P) xs lw)"
      by (rule fold_view_cong) (rule process_line_malformed_view [OF True])
    with True Cons.IH show ?thesis by simp
  next
    case False
    with Cons.IH show ?thesis by simp
  qed
qed

lemma fold_console_length:
  "length (console_errors (snd (fold (process_line P) ls lw))) =
   length (console_errors (snd lw)) + length (filter (malformed P) ls)"
  by (induction ls arbitrary: lw) (simp_all add: process_line_console)

lemma no_console_eq:
  "no_console x = no_console y \<longleftrightarrow> x = y\<lparr>console_errors := console_errors x\<rparr>"
  by (cases x, cases y) (auto simp: no_console_def)

lemma view_eq_iff:
  "view a = view b \<longleftrightarrow> fst a = fst b \<and> snd a = (snd b)\<lparr>console_errors := console_errors (snd a)\<rparr>"
  by (auto simp: view_def no_console_eq)

text \<open>
  C7. Malformed frames between valid frames are logged and skipped and do not abort the
  stream: reading a chunk always leaves the call suspended at the next read, never in
  the \<^verbatim>\<open>catch\<close> block; its local variables, the accumulated content among them, are
  those that the chunk's lines without the malformed ones produce, and so is the page,
  up to the console, which has one more entry for each malformed line.
\<close>

theorem malformed_frames_are_skipped:
  "\<exists>l' w'. after_read P (ReadChunk chunk) l w = Suspend l' w' \<and>
     l' = fst (fold (process_line P) (filter (\<lambda>x. \<not> malformed P x) (split_lines chunk)) (l, w)) \<and>
     w' = (snd (fold (process_line P) (filter (\<lambda>x. \<not> malformed P x) (split_lines chunk)) (l, w)))
            \<lparr>console_errors := console_errors w'\<rparr> \<and>
     length (console_errors w') =
       length (console_errors w) + length (filter (malformed P) (split_lines chunk))"
proof -
  let ?all = "fold (process_line P) (split_lines chunk) (l, w)"
  let ?good = "fold (process_line P) (filter (\<lambda>x. \<not> malformed P x) (split_lines chunk)) (l, w)"
  have r: "after_read P (ReadChunk chunk) l w = Suspend (fst ?all) (snd ?all)"
    by (simp add: after_read_def split: prod.splits)
  have v: "view ?all = view ?good" by (rule fold_skip_malformed_view)
  have n: "length (console_errors (snd ?all)) =
      length (console_errors w) + length (filter (malformed P) (split_lines chunk))"
    using fold_console_length [of P "split_lines chunk" "(l, w)"] by simp
  from r v n show ?thesis by (simp add: view_eq_iff)
qed

lemma process_line_silent_view:
  "\<not> delivers_content P line \<Longrightarrow> view (process_line P line lw) = view lw"
proof (cases "malformed P line")
  case True
  then show ?thesis by (rule process_line_malformed_view)
next
  case False
  assume nd: "\<not> delivers_content P line"
  show ?thesis
  proof (cases "startsWith line ''data: '' \<and> js_trim (drop 6 line) \<noteq> []")
    case True
    with False nd show ?thesis
      by (auto simp: process_line_def Let_def malformed_def delivers_content_def frame_fails_def
            frame_try_def js_append_def get_prop_Inl dest: to_text_Inl
           split: option.splits sum.splits)
  next
    case False
    then show ?thesis by (auto simp: process_line_def Let_def)
  qed
qed

subsection \<open>Handlers\<close>

lemmas send_defs = sendMessage_def handleSendMessage_def showError_def streamChatResponse_def
  addMessage_def displayUserMessage_def appendChild_def createMessageElement_def
  showTypingIndicator_def getHistory_def

text \<open>
  C9. Whatever the history holds, \<^verbatim>\<open>clearHistory\<close> empties it and leaves \<open>isHealthy\<close>
  as it is, and so does \<^verbatim>\<open>handleClearChat\<close> when the user confirms; when the user
  declines, nothing changes.
\<close>

theorem clear_history_frame:
  "conversationHistory (clearHistory s) = [] \<and> isHealthy (clearHistory s) = isHealthy s \<and>
   conversationHistory (state (handleClearChat True w)) = [] \<and>
   isHealthy (state (handleClearChat True w)) = isHealthy (state w) \<and>
   isStreaming (state (handleClearChat True w)) = isStreaming (state w) \<and>
   handleClearChat False w = w"
  by (simp add: clearHistory_def handleClearChat_def)

text \<open>
  C2. While \<open>isStreaming\<close> is true, \<^verbatim>\<open>sendMessage\<close> issues no request, leaves the
  conversation history and the rest of the \<^verbatim>\<open>ChatState\<close> unchanged, and does not touch
  the suspended call: the attempt is rejected, not queued.
\<close>

theorem second_send_rejected:
  "isStreaming (state w) \<Longrightarrow>
   requests (sendMessage text now start w) = requests w \<and>
   conversationHistory (state (sendMessage text now start w)) = conversationHistory (state w) \<and>
   state (sendMessage text now start w) = state w \<and>
   task (sendMessage text now start w) = task w"
  by (simp add: send_defs Let_def)

theorem second_send_rejected_witness:
  "isStreaming (state (sendMessage ''first'' 1 2 page_online)) \<and>
   requests (sendMessage ''second'' 2 3 (sendMessage ''first'' 1 2 page_online)) =
     [ChatStreamPost ''first'' [\<lparr>role = User, content = ''first'', timestamp = 1\<rparr>]] \<and>
   conversationHistory (state (sendMessage ''second'' 2 3 (sendMessage ''first'' 1 2 page_online))) =
     [\<lparr>role = User, content = ''first'', timestamp = 1\<rparr>]"
  using second_send_rejected [of "sendMessage ''first'' 1 2 page_online" "''second''" 2 3]
  by (simp add: send_defs Let_def page_online_def page_loaded_def new_ChatState_def js_trim_def is_ws_def)

text \<open>
  C1, as amended. A \<^verbatim>\<open>sendMessage\<close> that violates a precondition (text empty after
  trimming, \<open>isStreaming\<close> true, or \<open>isHealthy\<close> falsy) leaves the \<^verbatim>\<open>ChatState\<close>, the
  displayed messages and the suspended call unchanged and issues no request. It shows a
  notice when the text is not empty after trimming (asking to wait when a response is
  streaming, reporting the backend offline otherwise) and none when the text is empty.
\<close>

theorem rejected_send:
  "js_trim text = [] \<or> isStreaming (state w) \<or> \<not> truthy (isHealthy (state w)) \<Longrightarrow>
   state (sendMessage text now start w) = state w \<and>
   requests (sendMessage text now start w) = requests w \<and>
   task (sendMessage text now start w) = task w \<and>
   dom_elems (sendMessage text now start w) = dom_elems w \<and>
   messagesContainer (sendMessage text now start w) = messagesContainer w \<and>
   notices (sendMessage text now start w) =
     (if js_trim text = [] then notices w
      else if isStreaming (state w) then
        notices w @ [''Please wait for the current response to complete'']
      else notices w @ [''Backend is offline. Please check your connection.''])"
  by (auto simp: send_defs Let_def)

theorem rejected_send_witness:
  "\<not> truthy (isHealthy (state page_loaded)) \<and>
   state (sendMessage ''hello'' 1 2 page_loaded) = state page_loaded \<and>
   requests (sendMessage ''hello'' 1 2 page_loaded) = [] \<and>
   notices (sendMessage ''hello'' 1 2 page_loaded) =
     [''Backend is offline. Please check your connection.'']"
  using rejected_send [of "''hello''" page_loaded 1 2]
  by (simp add: page_loaded_def new_ChatState_def js_trim_def is_ws_def)

text \<open>
  Against C1 as stated: blank text is a violated precondition, and the call returns
  without a notice, on a healthy idle page, while a response is streaming and with the
  backend offline alike.
\<close>

theorem empty_send_shows_no_notice:
  "js_trim ''   '' = [] \<and>
   notices (sendMessage ''   '' 1 2 page_online) = [] \<and>
   isStreaming (state (sendMessage ''first'' 0 1 page_online)) \<and>
   notices (sendMessage ''   '' 1 2 (sendMessage ''first'' 0 1 page_online)) = [] \<and>
   \<not> truthy (isHealthy (state page_loaded)) \<and>
   notices (sendMessage [] 1 2 page_loaded) = []"
  by (simp add: send_defs Let_def page_online_def page_loaded_def new_ChatState_def js_trim_def is_ws_def)

lemmas health_defs = checkHealth_def checkHealth_try_def js_and_def updateStatus_def
  console_error_def



text \<open>
  Bodies outside the schema: a \<^verbatim>\<open>bedrock_configured\<close> that is no boolean is tested for
  its truthiness, and an absent one is stored as it is, \<^verbatim>\<open>undefined\<close>, which reads as
  false.
\<close>

lemma checkHealth_off_schema:
  "checkHealth sample_platform (HealthBody ''{\"status\":\"healthy\",\"bedrock_configured\":1}'') page_loaded
   = Inr (page_loaded\<lparr>state := new_ChatState\<lparr>isHealthy := JBool True\<rparr>, statusOnline := True,
           requests := [HealthGet]\<rparr>) \<and>
   checkHealth sample_platform (HealthBody ''{}'') page_loaded
   = Inr (page_loaded\<lparr>state := new_ChatState\<lparr>isHealthy := JUndefined\<rparr>,
           requests := [HealthGet]\<rparr>)"
  by (simp add: health_defs Let_def sample_platform_def sample_parse_def page_loaded_def new_ChatState_def)

subsection \<open>Streams\<close>

lemmas dom2_defs = displayAssistantMessage_def set_text_def console_error_def

lemmas resume_defs = streamChatResponse_resume_def settle_def after_fetch_def after_read_def
  streamChatResponse_catch_def streamChatResponse_finally_def hideTypingIndicator_def

lemmas line_defs = process_line_def frame_try_def startsWith_def js_append_def to_text_def

lemmas sample_defs = sample_platform_def sample_parse_def page_online_def page_loaded_def
  new_ChatState_def sse_def chunk_read_def response_ok_def end_of_stream_def js_trim_def is_ws_def

text \<open>
  C3, as amended. A transport error while a response is awaited or streamed (a rejected
  request, a response that is not ok or has no body, a failed read) ends the call:
  nothing is suspended any more and \<open>isStreaming\<close> is false. One notice with the error's
  message is shown and one fallback assistant element is appended to the displayed
  messages, after the elements already shown, which keep their text. The conversation
  history is left as it was, with neither the fallback nor the accumulated content, and
  no further request is issued.
\<close>

theorem stream_failure:
  assumes "task w = Some l" and "stream_fails (awaiting l) ev = Some e"
  shows "task (streamChatResponse_resume P ev now w) = None \<and>
     \<not> isStreaming (state (streamChatResponse_resume P ev now w)) \<and>
     conversationHistory (state (streamChatResponse_resume P ev now w)) = conversationHistory (state w) \<and>
     notices (streamChatResponse_resume P ev now w) =
       notices w @ [''Failed to get response: '' @ message_of P e] \<and>
     dom_elems (streamChatResponse_resume P ev now w) =
       dom_elems w @ [\<lparr>el_role = Assistant, el_welcome = False,
                       el_text = ''Sorry, I encountered an error. Please try again.'',
                       el_time = now\<rparr>] \<and>
     messagesContainer (streamChatResponse_resume P ev now w) =
       messagesContainer w @ [length (dom_elems w)] \<and>
     requests (streamChatResponse_resume P ev now w) = requests w"
  using assms
  by (cases "(awaiting l, ev)" rule: stream_fails.cases)
     (auto simp: resume_defs dom_defs showError_def split: if_splits)

text \<open>
  Against C3 as stated: after \<^verbatim>\<open>{"content":"Par"}\<close> and a failed read the history holds
  the user's message only; no fallback message is appended to it.
\<close>

theorem failed_stream_leaves_history:
  "conversationHistory (state (run sample_platform
      [response_ok 2, chunk_read 3 (sse ''{\"content\":\"Par\"}''),
       (4, Settled (ReadSettled (ReadFailed ''network error'')))]
      (sendMessage ''hello'' 1 2 page_online))) =
   [\<lparr>role = User, content = ''hello'', timestamp = 1\<rparr>]"
  by (simp add: run_def step_def send_defs resume_defs line_defs dom2_defs sample_defs message_of_def Let_def)

lemma process_line_keeps:
  "state (snd (process_line P line lw)) = state (snd lw) \<and>
   requests (snd (process_line P line lw)) = requests (snd lw) \<and>
   notices (snd (process_line P line lw)) = notices (snd lw) \<and>
   awaiting (fst (process_line P line lw)) = awaiting (fst lw) \<and>
   startTime (fst (process_line P line lw)) = startTime (fst lw)"
proof (cases "startsWith line ''data: '' \<and> js_trim (drop 6 line) \<noteq> []")
  case False
  then show ?thesis by (auto simp: process_line_def Let_def)
next
  case True
  show ?thesis
  proof (cases "frame_try P (drop 6 line) lw")
    case (Inl e)
    with True show ?thesis by (simp add: process_line_def Let_def console_error_def)
  next
    case (Inr lw')
    with True show ?thesis using frame_try_state [OF Inr] by (simp add: process_line_def Let_def)
  qed
qed

lemma process_line_fragment:
  "streamedContent (fst (process_line P line lw)) = streamedContent (fst lw) @ fragment P line"
proof (cases "delivers_content P line")
  case False
  then have "view (process_line P line lw) = view lw" by (rule process_line_silent_view)
  then have "fst (process_line P line lw) = fst lw" by (simp add: view_def)
  with False show ?thesis by (simp add: fragment_def)
next
  case True
  then show ?thesis
    by (auto simp: delivers_content_def fragment_def process_line_def frame_try_def js_append_def
          Let_def displayAssistantMessage_def appendChild_def
          split: option.splits sum.splits prod.splits)
qed

lemma fold_lines_keeps:
  "state (snd (fold (process_line P) ls lw)) = state (snd lw) \<and>
   requests (snd (fold (process_line P) ls lw)) = requests (snd lw) \<and>
   notices (snd (fold (process_line P) ls lw)) = notices (snd lw) \<and>
   awaiting (fst (fold (process_line P) ls lw)) = awaiting (fst lw) \<and>
   startTime (fst (fold (process_line P) ls lw)) = startTime (fst lw)"
  by (induction ls arbitrary: lw) (simp_all add: process_line_keeps)

lemma fold_lines_fragments:
  "streamedContent (fst (fold (process_line P) ls lw)) =
   streamedContent (fst lw) @ concat (map (fragment P) ls)"
  by (induction ls arbitrary: lw) (simp_all add: process_line_fragment)

lemma step_chunk:
  assumes "task w = Some l" and "awaiting l = AwaitingRead"
  shows "\<exists>l'. task (step P (chunk_read t c) w) = Some l' \<and> awaiting l' = AwaitingRead \<and>
     startTime l' = startTime l \<and>
     streamedContent l' = streamedContent l @ concat (map (fragment P) (split_lines c)) \<and>
     state (step P (chunk_read t c) w) = state w \<and>
     requests (step P (chunk_read t c) w) = requests w \<and>
     notices (step P (chunk_read t c) w) = notices w"
  using assms fold_lines_keeps [of P "split_lines c" "(l, w)"]
    fold_lines_fragments [of P "split_lines c" "(l, w)"]
  by (simp add: step_def chunk_read_def streamChatResponse_resume_def settle_def after_read_def
        case_prod_beta)

lemma run_chunks:
  assumes "task w = Some l" and "awaiting l = AwaitingRead"
  shows "\<exists>l'. task (run P (chunk_reads cs) w) = Some l' \<and> awaiting l' = AwaitingRead \<and>
     startTime l' = startTime l \<and>
     streamedContent l' = streamedContent l @ concat (map (fragment P) (lines_of cs)) \<and>
     state (run P (chunk_reads cs) w) = state w \<and>
     requests (run P (chunk_reads cs) w) = requests w \<and>
     notices (run P (chunk_reads cs) w) = notices w"
  using assms
proof (induction cs arbitrary: w l)
  case Nil
  then show ?case by (simp add: run_def chunk_reads_def lines_of_def)
next
  case (Cons c cs)
  from step_chunk [OF Cons.prems, of P "fst c" "snd c"]
  obtain l1 where s: "task (step P (chunk_read (fst c) (snd c)) w) = Some l1"
      "awaiting l1 = AwaitingRead" "startTime l1 = startTime l"
      "streamedContent l1 = streamedContent l @ concat (map (fragment P) (split_lines (snd c)))"
      "state (step P (chunk_read (fst c) (snd c)) w) = state w"
      "requests (step P (chunk_read (fst c) (snd c)) w) = requests w"
      "notices (step P (chunk_read (fst c) (snd c)) w) = notices w"
    by blast
  from Cons.IH [OF s(1) s(2)] s show ?case
    by (auto simp: run_def chunk_reads_def lines_of_def)
qed

lemma sendMessage_accepted:
  assumes "js_trim text \<noteq> []" and "\<not> isStreaming (state w)" and "truthy (isHealthy (state w))"
  shows "task (sendMessage text now start w) =
       Some \<lparr>streamedContent = [], startTime = start, messageElement = None, awaiting = AwaitingFetch\<rparr> \<and>
     state (sendMessage text now start w) =
       (state w)\<lparr>conversationHistory :=
                   conversationHistory (state w) @ [\<lparr>role = User, content = js_trim text, timestamp = now\<rparr>],
                 isStreaming := True\<rparr> \<and>
     requests (sendMessage text now start w) =
       requests w @ [ChatStreamPost (js_trim text)
          (conversationHistory (state w) @ [\<lparr>role = User, content = js_trim text, timestamp = now\<rparr>])] \<and>
     notices (sendMessage text now start w) = notices w"
  using assms by (simp add: send_defs Let_def)

lemma step_response_ok:
  assumes "task w = Some l" and "awaiting l = AwaitingFetch"
  shows "task (step P (response_ok t) w) = Some (l\<lparr>awaiting := AwaitingRead\<rparr>) \<and>
     state (step P (response_ok t) w) = state w \<and>
     requests (step P (response_ok t) w) = requests w \<and>
     notices (step P (response_ok t) w) = notices w"
  using assms
  by (simp add: step_def response_ok_def streamChatResponse_resume_def settle_def after_fetch_def
        hideTypingIndicator_def)

lemma step_end_of_stream:
  assumes "task w = Some l" and "awaiting l = AwaitingRead"
  shows "task (step P (end_of_stream t) w) = None \<and>
     state (step P (end_of_stream t) w) =
       (state w)\<lparr>conversationHistory := conversationHistory (state w) @
                   [\<lparr>role = Assistant, content = streamedContent l, timestamp = startTime l\<rparr>],
                 isStreaming := False\<rparr> \<and>
     requests (step P (end_of_stream t) w) = requests w \<and>
     notices (step P (end_of_stream t) w) = notices w"
  using assms
  by (simp add: step_def end_of_stream_def streamChatResponse_resume_def settle_def after_read_def
        streamChatResponse_finally_def addMessage_def Let_def)

lemma completed_stream:
  assumes "js_trim text \<noteq> []" and "\<not> isStreaming (state w)" and "truthy (isHealthy (state w))"
  shows "state (run P (response_ok t1 # chunk_reads cs @ [end_of_stream t2]) (sendMessage text t0 ts w)) =
     (state w)\<lparr>conversationHistory := conversationHistory (state w) @
          [\<lparr>role = User, content = js_trim text, timestamp = t0\<rparr>,
           \<lparr>role = Assistant, content = concat (map (fragment P) (lines_of cs)), timestamp = ts\<rparr>],
        isStreaming := False\<rparr>"
proof -
  let ?w1 = "sendMessage text t0 ts w"
  let ?w2 = "step P (response_ok t1) ?w1"
  let ?w3 = "run P (chunk_reads cs) ?w2"
  note a = sendMessage_accepted [OF assms, of t0 ts]
  from a have t1: "task ?w1 = Some \<lparr>streamedContent = [], startTime = ts, messageElement = None,
      awaiting = AwaitingFetch\<rparr>" by simp
  note b = step_response_ok [OF t1, of P t1, simplified]
  from b have t2: "task ?w2 = Some \<lparr>streamedContent = [], startTime = ts, messageElement = None,
      awaiting = AwaitingRead\<rparr>" by simp
  from run_chunks [OF t2, of P cs]
  obtain l3 where c: "task ?w3 = Some l3" "awaiting l3 = AwaitingRead" "startTime l3 = ts"
      "streamedContent l3 = concat (map (fragment P) (lines_of cs))" "state ?w3 = state ?w2"
    by auto
  note d = step_end_of_stream [OF c(1) c(2), of P t2]
  have "run P (response_ok t1 # chunk_reads cs @ [end_of_stream t2]) ?w1 =
      step P (end_of_stream t2) ?w3"
    by (simp add: run_def)
  with a b c d show ?thesis by simp
qed








theorem stream_failure_witness:
  "task (run sample_platform [response_ok 2, chunk_read 3 (sse ''{\"content\":\"Par\"}'')]
           (sendMessage ''hello'' 1 2 page_online)) =
     Some \<lparr>streamedContent = ''Par'', startTime = 2, messageElement = Some 2, awaiting = AwaitingRead\<rparr> \<and>
   stream_fails AwaitingRead (ReadSettled (ReadFailed ''network error'')) = Some (Rejected ''network error'') \<and>
   \<not> isStreaming (state (streamChatResponse_resume sample_platform
          (ReadSettled (ReadFailed ''network error'')) 4
          (run sample_platform [response_ok 2, chunk_read 3 (sse ''{\"content\":\"Par\"}'')]
             (sendMessage ''hello'' 1 2 page_online)))) \<and>
   notices (streamChatResponse_resume sample_platform
          (ReadSettled (ReadFailed ''network error'')) 4
          (run sample_platform [response_ok 2, chunk_read 3 (sse ''{\"content\":\"Par\"}'')]
             (sendMessage ''hello'' 1 2 page_online))) = [''Failed to get response: network error''] \<and>
   map el_text (dom_elems (streamChatResponse_resume sample_platform
          (ReadSettled (ReadFailed ''network error'')) 4
          (run sample_platform [response_ok 2, chunk_read 3 (sse ''{\"content\":\"Par\"}'')]
             (sendMessage ''hello'' 1 2 page_online)))) =
     [[], ''hello'', ''Par'', ''Sorry, I encountered an error. Please try again.'']"
  using stream_failure [of
      "run sample_platform [response_ok 2, chunk_read 3 (sse ''{\"content\":\"Par\"}'')]
         (sendMessage ''hello'' 1 2 page_online)"
      "\<lparr>streamedContent = ''Par'', startTime = 2, messageElement = Some 2, awaiting = AwaitingRead\<rparr>"
      "ReadSettled (ReadFailed ''network error'')" "Rejected ''network error''" sample_platform 4]
  by (simp add: run_def step_def send_defs resume_defs line_defs dom2_defs sample_defs message_of_def Let_def)



text \<open>
  C10. When no line of any chunk delivers content (done markers, malformed frames,
  comments, or no chunk at all) and the body ends, an assistant message with empty
  content is still appended to the history, after the user's message; its time is the
  start of the request.
\<close>

theorem empty_stream_commits_empty_message:
  assumes "js_trim text \<noteq> []" and "\<not> isStreaming (state w)" and "truthy (isHealthy (state w))"
    and "\<forall>line \<in> set (lines_of cs). \<not> delivers_content P line"
  shows "conversationHistory (state (run P (response_ok t1 # chunk_reads cs @ [end_of_stream t2])
            (sendMessage text t0 ts w))) =
         conversationHistory (state w) @
           [\<lparr>role = User, content = js_trim text, timestamp = t0\<rparr>,
            \<lparr>role = Assistant, content = [], timestamp = ts\<rparr>]"
proof -
  have "concat (map (fragment P) (lines_of cs)) = []"
    using assms(4) by (simp add: fragment_def)
  then show ?thesis
    using completed_stream [OF assms(1-3), of P t1 cs t2 t0 ts] by simp
qed

theorem empty_stream_commits_empty_message_witness:
  "js_trim ''hello'' \<noteq> [] \<and> \<not> isStreaming (state page_online) \<and>
   truthy (isHealthy (state page_online)) \<and>
   lines_of [(3, sse ''{\"content\":''), (4, sse ''{\"done\":true}'')] =
     [''data: {\"content\":'', [], [], ''data: {\"done\":true}'', [], []] \<and>
   list_all (\<lambda>line. \<not> delivers_content sample_platform line)
     (lines_of [(3, sse ''{\"content\":''), (4, sse ''{\"done\":true}'')]) \<and>
   conversationHistory (state (run sample_platform
      (response_ok 2 # chunk_reads [(3, sse ''{\"content\":''), (4, sse ''{\"done\":true}'')] @
       [end_of_stream 5])
      (sendMessage ''hello'' 1 2 page_online))) =
     [\<lparr>role = User, content = ''hello'', timestamp = 1\<rparr>,
      \<lparr>role = Assistant, content = [], timestamp = 2\<rparr>]"
  using empty_stream_commits_empty_message [of "''hello''" page_online
      "[(3, sse ''{\"content\":''), (4, sse ''{\"done\":true}'')]" sample_platform 2 5 1 2]
  by (simp add: sample_platform_def sample_parse_def page_online_def page_loaded_def new_ChatState_def
        js_trim_def is_ws_def lines_of_def sse_def delivers_content_def startsWith_def)

subsection \<open>The streaming flag\<close>

lemma resume_in_flight:
  assumes "task w = Some l"
  shows "(task (streamChatResponse_resume P ev now w) = None \<longleftrightarrow> stream_ends (awaiting l) ev) \<and>
         isStreaming (state (streamChatResponse_resume P ev now w)) =
           (isStreaming (state w) \<and> \<not> stream_ends (awaiting l) ev)"
proof (cases "(awaiting l, ev)" rule: stream_ends.cases)
  case (5 c)
  then show ?thesis
    using assms fold_lines_keeps [of P "split_lines c" "(l, w)"]
    by (simp add: streamChatResponse_resume_def settle_def after_read_def case_prod_beta)
qed (use assms in \<open>auto simp: resume_defs dom_defs showError_def addMessage_def Let_def\<close>)

lemma handleSendMessage_in_flight:
  "(isStreaming (state w) \<longleftrightarrow> task w \<noteq> None) \<Longrightarrow>
   (isStreaming (state (handleSendMessage now start w)) \<longleftrightarrow> task (handleSendMessage now start w) \<noteq> None) \<and>
   (task w \<noteq> None \<longrightarrow> task (handleSendMessage now start w) = task w)"
  by (auto simp: send_defs Let_def)

lemma checkHealth_keeps:
  "\<exists>w'. checkHealth P reply w = Inr w' \<and> isStreaming (state w') = isStreaming (state w) \<and>
     task w' = task w \<and> conversationHistory (state w') = conversationHistory (state w)"
  by (cases reply) (auto simp: health_defs Let_def split: option.splits sum.splits)

lemma step_in_flight:
  assumes "isStreaming (state w) \<longleftrightarrow> task w \<noteq> None"
  shows "isStreaming (state (step P te w)) \<longleftrightarrow> task (step P te w) \<noteq> None"
proof (cases "snd te")
  case (Typed s)
  with assms show ?thesis by (simp add: step_def)
next
  case (Send start)
  with assms handleSendMessage_in_flight [of w "fst te" start] show ?thesis by (simp add: step_def)
next
  case (Clear c)
  with assms show ?thesis by (simp add: step_def handleClearChat_def clearHistory_def)
next
  case (HealthChecked reply)
  with assms checkHealth_keeps [of P reply w] show ?thesis by (auto simp: step_def)
next
  case (Settled ev)
  show ?thesis
  proof (cases "task w")
    case None
    with Settled assms show ?thesis by (simp add: step_def streamChatResponse_resume_def)
  next
    case (Some l)
    with Settled assms resume_in_flight [OF Some, of P ev "fst te"] show ?thesis
      by (auto simp: step_def)
  qed
qed

lemma run_in_flight:
  "(isStreaming (state w) \<longleftrightarrow> task w \<noteq> None) \<Longrightarrow>
   (isStreaming (state (run P evs w)) \<longleftrightarrow> task (run P evs w) \<noteq> None)"
proof (induction evs arbitrary: w)
  case Nil
  then show ?case by (simp add: run_def)
next
  case (Cons e es)
  from Cons.IH [OF step_in_flight [OF Cons.prems, of P e]] show ?case by (simp add: run_def)
qed

lemma stream_ends_quiet: "quiet (Settled s) \<Longrightarrow> \<not> stream_ends a s"
  by (cases a) (simp_all add: quiet_def)

lemma step_quiet:
  assumes "task w \<noteq> None" and "quiet (snd te)"
  shows "task (step P te w) \<noteq> None"
proof (cases "snd te")
  case (Typed s)
  with assms show ?thesis by (simp add: step_def)
next
  case (Send start)
  show ?thesis
  proof (cases "isStreaming (state w)")
    case True
    with Send assms show ?thesis by (simp add: step_def send_defs Let_def)
  next
    case False
    with Send assms show ?thesis by (simp add: step_def send_defs Let_def)
  qed
next
  case (Clear c)
  with assms show ?thesis by (simp add: step_def handleClearChat_def)
next
  case (HealthChecked reply)
  with assms checkHealth_keeps [of P reply w] show ?thesis by (auto simp: step_def)
next
  case (Settled ev)
  from assms(1) obtain l where l: "task w = Some l" by auto
  from Settled assms(2) have "\<not> stream_ends (awaiting l) ev" by (simp add: stream_ends_quiet)
  with Settled resume_in_flight [OF l, of P ev "fst te"] show ?thesis by (simp add: step_def)
qed

lemma run_quiet:
  "task w \<noteq> None \<Longrightarrow> list_all (\<lambda>te. quiet (snd te)) evs \<Longrightarrow> task (run P evs w) \<noteq> None"
proof (induction evs arbitrary: w)
  case Nil
  then show ?case by (simp add: run_def)
next
  case (Cons e es)
  from Cons.prems have "task (step P e w) \<noteq> None" by (simp add: step_quiet)
  with Cons show ?case by (simp add: run_def)
qed

text \<open>
  C8. After a \<^verbatim>\<open>sendMessage\<close> that passes its preconditions \<open>isStreaming\<close> is true. In
  every continuation of the page it is true exactly while the call is suspended; it
  stays true as long as no event ends the stream; and an outcome delivered to the
  suspended call leaves it true unless that outcome ends the stream, by the end of the
  body or by a failure alike, in which case it is false.
\<close>

theorem isStreaming_lifecycle:
  assumes "js_trim text \<noteq> []" and "\<not> isStreaming (state w)" and "truthy (isHealthy (state w))"
  shows "isStreaming (state (sendMessage text now start w)) \<and>
     (isStreaming (state (run P evs (sendMessage text now start w))) \<longleftrightarrow>
        task (run P evs (sendMessage text now start w)) \<noteq> None) \<and>
     (list_all (\<lambda>te. quiet (snd te)) evs \<longrightarrow> isStreaming (state (run P evs (sendMessage text now start w)))) \<and>
     (task (run P evs (sendMessage text now start w)) = Some l \<longrightarrow>
        isStreaming (state (step P (t, Settled ev) (run P evs (sendMessage text now start w)))) =
          (\<not> stream_ends (awaiting l) ev))"
proof -
  let ?w1 = "sendMessage text now start w"
  note a = sendMessage_accepted [OF assms, of now start]
  from a have s1: "isStreaming (state ?w1)" and t1: "task ?w1 \<noteq> None" by simp_all
  then have i1: "isStreaming (state ?w1) \<longleftrightarrow> task ?w1 \<noteq> None" by simp
  note inv = run_in_flight [OF i1, of P evs]
  have q: "isStreaming (state (run P evs ?w1))" if "list_all (\<lambda>te. quiet (snd te)) evs"
    using run_quiet [OF t1 that, of P] inv by simp
  have e: "isStreaming (state (step P (t, Settled ev) (run P evs ?w1))) = (\<not> stream_ends (awaiting l) ev)"
    if "task (run P evs ?w1) = Some l"
    using resume_in_flight [OF that, of P ev t] inv that by (simp add: step_def)
  from s1 inv q e show ?thesis by blast
qed

theorem isStreaming_lifecycle_witness:
  "js_trim ''hello'' \<noteq> [] \<and> \<not> isStreaming (state page_online) \<and>
   truthy (isHealthy (state page_online)) \<and>
   isStreaming (state (sendMessage ''hello'' 1 2 page_online)) \<and>
   list_all (\<lambda>te. quiet (snd te))
     [response_ok 2, (3, Send 3), (3, HealthChecked (HealthRejected ''offline'')),
      chunk_read 4 (sse ''{\"content\":\"Hi\"}'')] \<and>
   task (run sample_platform
     [response_ok 2, (3, Send 3), (3, HealthChecked (HealthRejected ''offline'')),
      chunk_read 4 (sse ''{\"content\":\"Hi\"}'')] (sendMessage ''hello'' 1 2 page_online)) =
     Some \<lparr>streamedContent = ''Hi'', startTime = 2, messageElement = Some 2, awaiting = AwaitingRead\<rparr> \<and>
   isStreaming (state (run sample_platform
     [response_ok 2, (3, Send 3), (3, HealthChecked (HealthRejected ''offline'')),
      chunk_read 4 (sse ''{\"content\":\"Hi\"}'')] (sendMessage ''hello'' 1 2 page_online))) \<and>
   \<not> isStreaming (state (step sample_platform (5, Settled (ReadSettled ReadDone))
     (run sample_platform
       [response_ok 2, (3, Send 3), (3, HealthChecked (HealthRejected ''offline'')),
        chunk_read 4 (sse ''{\"content\":\"Hi\"}'')] (sendMessage ''hello'' 1 2 page_online))))"
  using isStreaming_lifecycle [of "''hello''" page_online 1 2 sample_platform
     "[response_ok 2, (3, Send 3), (3, HealthChecked (HealthRejected ''offline'')),
       chunk_read 4 (sse ''{\"content\":\"Hi\"}'')]"
     "\<lparr>streamedContent = ''Hi'', startTime = 2, messageElement = Some 2, awaiting = AwaitingRead\<rparr>"
     5 "ReadSettled ReadDone"]
  by (simp add: run_def step_def send_defs resume_defs line_defs dom2_defs sample_defs health_defs
        quiet_def Let_def)

subsection \<open>The completion marker\<close>

lemma split_lines_single:
  "CHR 0x0A \<notin> set s \<Longrightarrow> split_lines (s @ [CHR 0x0A, CHR 0x0A]) = [s, [], []]"
  by (induction s) auto

text \<open>
  C5, as amended. A frame whose payload has a truthy \<^verbatim>\<open>done\<close> is skipped: it changes
  neither the accumulated content nor anything else, whatever else it carries, and a
  chunk that holds just this frame leaves the call suspended at the next read. The loop
  does not end there: a suspended call ends exactly at an outcome that ends the stream
  (the end of the body or a failure), and a chunk is none.
\<close>

theorem done_frame_is_skipped:
  assumes "JSON_parse P data = Some parsed" and "get_prop parsed ''done'' = Inr d" and "truthy d"
  shows "process_line P (''data: '' @ data) (l, w) = (l, w) \<and>
         (CHR 0x0A \<notin> set data \<longrightarrow> after_read P (ReadChunk (sse data)) l w = Suspend l w) \<and>
         (task w = Some l \<longrightarrow>
            (task (streamChatResponse_resume P ev now w) = None \<longleftrightarrow> stream_ends (awaiting l) ev)) \<and>
         \<not> stream_ends (awaiting l) (ReadSettled (ReadChunk c))"
proof -
  have a: "process_line P (''data: '' @ data) (l, w) = (l, w)"
    using assms by (simp add: line_defs Let_def)
  have b: "after_read P (ReadChunk (sse data)) l w = Suspend l w" if "CHR 0x0A \<notin> set data"
  proof -
    have "split_lines (sse data) = [''data: '' @ data, [], []]"
      using split_lines_single [of "''data: '' @ data"] that by (simp add: sse_def)
    then show ?thesis using a by (simp add: after_read_def process_line_def startsWith_def)
  qed
  have c: "\<not> stream_ends (awaiting l) (ReadSettled (ReadChunk c))"
    by (cases "awaiting l") simp_all
  from a b c resume_in_flight [of w l P ev now] show ?thesis by blast
qed

theorem done_frame_is_skipped_witness:
  "JSON_parse sample_platform ''{\"done\":true}'' = Some (JObj [(''done'', JBool True)]) \<and>
   get_prop (JObj [(''done'', JBool True)]) ''done'' = Inr (JBool True) \<and> truthy (JBool True) \<and>
   CHR 0x0A \<notin> set ''{\"done\":true}'' \<and>
   task page_streaming = Some locals_streaming \<and>
   process_line sample_platform ''data: {\"done\":true}'' (locals_streaming, page_streaming) =
     (locals_streaming, page_streaming) \<and>
   after_read sample_platform (ReadChunk (sse ''{\"done\":true}'')) locals_streaming page_streaming =
     Suspend locals_streaming page_streaming \<and>
   task (streamChatResponse_resume sample_platform
           (ReadSettled (ReadChunk (sse ''{\"done\":true}''))) 4 page_streaming) =
     Some locals_streaming \<and>
   task (streamChatResponse_resume sample_platform (ReadSettled ReadDone) 5 page_streaming) = None"
proof -
  have t: "task page_streaming = Some locals_streaming"
    by (simp add: page_streaming_def locals_streaming_def run_def step_def send_defs resume_defs
          line_defs dom2_defs sample_defs Let_def)
  have p: "JSON_parse sample_platform ''{\"done\":true}'' = Some (JObj [(''done'', JBool True)])"
    by (simp add: sample_platform_def sample_parse_def)
  note d = done_frame_is_skipped [of sample_platform "''{\"done\":true}''"
      "JObj [(''done'', JBool True)]" "JBool True" locals_streaming page_streaming
      "ReadSettled ReadDone" 5, OF p]
  have r: "task (streamChatResponse_resume sample_platform
           (ReadSettled (ReadChunk (sse ''{\"done\":true}''))) 4 page_streaming) =
     Some locals_streaming"
    using t d by (simp add: streamChatResponse_resume_def settle_def locals_streaming_def)
  from t p d r show ?thesis by (simp add: locals_streaming_def)
qed

text \<open>
  Against C5 as stated: after a done frame the page is still streaming, and a content
  frame that follows is appended to the committed message.
\<close>

theorem done_marker_does_not_end_loop:
  "isStreaming (state (run sample_platform
      [response_ok 2, chunk_read 3 (sse ''{\"content\":\"Hi\"}''), chunk_read 4 (sse ''{\"done\":true}'')]
      (sendMessage ''hello'' 1 2 page_online))) \<and>
   conversationHistory (state (run sample_platform
      [response_ok 2, chunk_read 3 (sse ''{\"content\":\"Hi\"}''), chunk_read 4 (sse ''{\"done\":true}''),
       chunk_read 5 (sse ''{\"content\":\" there\"}''), end_of_stream 6]
      (sendMessage ''hello'' 1 2 page_online))) =
   [\<lparr>role = User, content = ''hello'', timestamp = 1\<rparr>,
    \<lparr>role = Assistant, content = ''Hi there'', timestamp = 2\<rparr>]"
  by (simp add: run_def step_def send_defs resume_defs line_defs dom2_defs sample_defs Let_def)

end
